theory Spec2Isabelle
  imports Complex_Main "HOL-Library.AList" "HOL-Library.Sublist"
begin

section \<open>Values of the program\<close>

text \<open>
  The program is the similarity resolver of \<^verbatim>\<open>src/index.js\<close> with the weights of
  \<^verbatim>\<open>src/config.js\<close>.

  Numbers. A JavaScript number is an IEEE double; it is modelled by a real, so every
  sum, product, quotient, square root and logarithm is exact. Rounding error, overflow
  and the values \<^verbatim>\<open>NaN\<close> and \<^verbatim>\<open>Infinity\<close> are outside the model: where the source
  guards a division (\<^verbatim>\<open>x || 1\<close>) the guard is written out, and \<^verbatim>\<open>Math.log\<close> is \<open>ln\<close>,
  which it agrees with on positive arguments.

  Objects used as dictionaries (\<^verbatim>\<open>df\<close>, \<^verbatim>\<open>tf\<close>, the semantic score maps) are
  association lists in insertion order, read with \<open>map_of\<close> and written with
  \<open>AList.update\<close> (an existing key keeps its place, a new key goes last). JavaScript
  iterates keys that are written like array indices first; the loops over an object only
  add up reals, so no result depends on that order. Keys that a plain object inherits
  from \<^verbatim>\<open>Object.prototype\<close> are outside the model. A missing or
  \<^verbatim>\<open>null\<close> string field is the empty string, which is what every use of it in the
  source turns it into (\<^verbatim>\<open>text || ''\<close>).
\<close>

type_synonym 'v obj = "(string \<times> 'v) list"

text \<open>\<^verbatim>\<open>x || 0\<close> for a number that may be \<^verbatim>\<open>undefined\<close>: a missing value and \<open>0\<close> both give \<open>0\<close>.\<close>

definition or_zero :: "real option \<Rightarrow> real" where
  "or_zero x = (case x of None \<Rightarrow> 0 | Some v \<Rightarrow> if v = 0 then 0 else v)"

text \<open>\<^verbatim>\<open>config.js\<close>: the module assigns \<^verbatim>\<open>module.exports\<close> twice and the second object stands.
  The fields carry the names of the constants \<^verbatim>\<open>index.js\<close> reads them into.\<close>

record weights =
  SUMMARY_WEIGHT :: real
  DESCRIPTION_WEIGHT :: real
  SEMANTIC_WEIGHT :: real
  TFIDF_WEIGHT :: real
  SEMANTIC_THRESHOLD :: real
  MAX_BOOST :: real
  BOOST_ISSUETYPE_MATCH :: real
  BOOST_LABELS_OVERLAP :: real
  BOOST_COMPONENTS_OVERLAP :: real

definition config :: weights where
  "config = \<lparr>SUMMARY_WEIGHT = 8 / 10, DESCRIPTION_WEIGHT = 2 / 10,
     SEMANTIC_WEIGHT = 8 / 10, TFIDF_WEIGHT = 2 / 10, SEMANTIC_THRESHOLD = 6 / 10,
     MAX_BOOST = 1 / 10, BOOST_ISSUETYPE_MATCH = 5 / 100,
     BOOST_LABELS_OVERLAP = 2 / 100, BOOST_COMPONENTS_OVERLAP = 2 / 100\<rparr>"

text \<open>\<^verbatim>\<open>{ issuetype, labels, components }\<close>: the metadata of the current issue. The field
  \<open>issuetype\<close> holds the value of \<^verbatim>\<open>issuetype?.id\<close>, \<open>None\<close> when it is \<^verbatim>\<open>undefined\<close>.\<close>

record component =
  name :: string

record metadata =
  issuetype :: "string option"
  labels :: "string list"
  components :: "component list"

text \<open>\<^verbatim>\<open>{ key, issuetype, labels, components }\<close>: an entry of \<^verbatim>\<open>othersMetadata\<close>.\<close>

record issue_metadata = metadata +
  key :: string

record keyed =
  key :: string

text \<open>\<^verbatim>\<open>{ key, summary, description }\<close>: the current issue and each of the others.\<close>

record issue = keyed +
  summary :: string
  description :: string

text \<open>\<^verbatim>\<open>{ key, summary, description, score }\<close>: an entry of the resolver's \<^verbatim>\<open>similar\<close>.\<close>

record similar_issue = issue +
  score :: real

text \<open>\<^verbatim>\<open>{ key, score }\<close>: an entry of every intermediate score list.\<close>

record scored = keyed +
  score :: real

section \<open>Text preprocessing\<close>

definition STOP_WORDS :: "string list" where
  "STOP_WORDS = [''the'', ''is'', ''in'', ''at'', ''of'', ''a'', ''and'', ''to'', ''it'', ''for'',
     ''on'', ''this'', ''that'', ''with'', ''as'', ''by'', ''an'']"

text \<open>\<^verbatim>\<open>normalizationDictionary[token] || token\<close>. The dictionary and the phrase map come
  from a module that is not part of the sources; both are parameters.\<close>

definition normalizeToken :: "string obj \<Rightarrow> string \<Rightarrow> string" where
  "normalizeToken normalizationDictionary token =
     (case map_of normalizationDictionary token of
        None \<Rightarrow> token
      | Some v \<Rightarrow> if v = [] then token else v)"

text \<open>The class \<^verbatim>\<open>\w\<close> of a regular expression without the unicode flag: \<^verbatim>\<open>[A-Za-z0-9_]\<close>.\<close>

definition is_word_char :: "char \<Rightarrow> bool" where
  "is_word_char c =
     (let n = (of_char c :: nat)
      in (48 \<le> n \<and> n \<le> 57) \<or> (65 \<le> n \<and> n \<le> 90) \<or> n = 95 \<or> (97 \<le> n \<and> n \<le> 122))"

text \<open>\<^verbatim>\<open>toLowerCase\<close> on ASCII text.\<close>

definition toLowerCase :: "string \<Rightarrow> string" where
  "toLowerCase s =
     map (\<lambda>c. let n = (of_char c :: nat) in if 65 \<le> n \<and> n \<le> 90 then char_of (n + 32) else c) s"

text \<open>
  \<^verbatim>\<open>text.replace(new RegExp(`\\b${phrase}\\b`, 'gi'), replacement)\<close> for a phrase of literal
  characters and a replacement without \<^verbatim>\<open>$\<close> patterns. \<^verbatim>\<open>\b\<close> holds between two neighbouring
  positions when exactly one of them carries a word character; the ends of the text carry
  none. The scan runs left to right over the original text and resumes after each match;
  a match of the empty phrase consumes nothing, so the scan copies the next character.
\<close>

definition word_boundary :: "char option \<Rightarrow> char option \<Rightarrow> bool" where
  "word_boundary prev nxt =
     ((case prev of None \<Rightarrow> False | Some c \<Rightarrow> is_word_char c)
      \<noteq> (case nxt of None \<Rightarrow> False | Some c \<Rightarrow> is_word_char c))"

definition char_at :: "string \<Rightarrow> nat \<Rightarrow> char option" where
  "char_at s i = (if i < length s then Some (s ! i) else None)"

definition matches_at :: "string \<Rightarrow> char option \<Rightarrow> string \<Rightarrow> bool" where
  "matches_at phrase prev rest =
     (length phrase \<le> length rest
      \<and> word_boundary prev (char_at rest 0)
      \<and> toLowerCase (take (length phrase) rest) = toLowerCase phrase
      \<and> word_boundary (if phrase = [] then prev else char_at rest (length phrase - 1))
           (char_at rest (length phrase)))"

function replace_scan :: "string \<Rightarrow> string \<Rightarrow> char option \<Rightarrow> string \<Rightarrow> string" where
  "replace_scan phrase replacement prev rest =
     (if phrase \<noteq> [] \<and> matches_at phrase prev rest then
        replacement @ replace_scan phrase replacement (char_at rest (length phrase - 1))
                        (drop (length phrase) rest)
      else
        (if matches_at phrase prev rest then replacement else [])
        @ (case rest of
             [] \<Rightarrow> []
           | c # cs \<Rightarrow> c # replace_scan phrase replacement (Some c) cs))"
  by pat_completeness auto
termination
  by (relation "measure (\<lambda>(phrase, replacement, prev, rest). length rest)")
     (auto simp: matches_at_def neq_Nil_conv)

declare replace_scan.simps [simp del]

definition applyPhraseMap :: "string obj \<Rightarrow> string \<Rightarrow> string" where
  "applyPhraseMap phraseMap txt =
     fold (\<lambda>(phrase, replacement) txt. replace_scan phrase replacement None txt) phraseMap txt"

text \<open>\<^verbatim>\<open>split(/\W+/)\<close>: the pieces between the maximal runs of non-word characters; a run at
  either end of the text leaves an empty piece there, and the empty text is one empty piece.\<close>

fun split_nonword :: "bool \<Rightarrow> string \<Rightarrow> string \<Rightarrow> string list" where
  "split_nonword in_run piece [] = [piece]"
| "split_nonword in_run piece (c # cs) =
     (if is_word_char c then split_nonword False (piece @ [c]) cs
      else if in_run then split_nonword True piece cs
      else piece # split_nonword True [] cs)"

definition tokenize :: "string obj \<Rightarrow> string obj \<Rightarrow> string \<Rightarrow> string list" where
  "tokenize phraseMap normalizationDictionary txt =
     (let normalized = toLowerCase (applyPhraseMap phraseMap txt)
      in filter (\<lambda>t. t \<noteq> [] \<and> t \<notin> set STOP_WORDS)
           (map (normalizeToken normalizationDictionary) (split_nonword False [] normalized)))"

section \<open>TF-IDF and cosine similarity\<close>

text \<open>\<^verbatim>\<open>new Set(xs)\<close>, in its iteration order: each value once, where it first occurs.\<close>

definition Set_add :: "'a list \<Rightarrow> 'a \<Rightarrow> 'a list" where
  "Set_add s x = (if x \<in> set s then s else s @ [x])"

definition new_Set :: "'a list \<Rightarrow> 'a list" where
  "new_Set xs = fold (\<lambda>x s. Set_add s x) xs []"

text \<open>\<^verbatim>\<open>m[k] = (m[k] || 0) + 1\<close>\<close>

definition increment :: "nat obj \<Rightarrow> string \<Rightarrow> nat obj" where
  "increment m k = AList.update k ((case map_of m k of None \<Rightarrow> 0 | Some n \<Rightarrow> n) + 1) m"

definition computeDocumentFrequencies :: "string list list \<Rightarrow> nat obj" where
  "computeDocumentFrequencies documents =
     fold (\<lambda>tokens df. fold (\<lambda>token df. increment df token) (new_Set tokens) df) documents []"

text \<open>\<^verbatim>\<open>df[t] || 1\<close>\<close>

definition df_or_1 :: "nat obj \<Rightarrow> string \<Rightarrow> nat" where
  "df_or_1 df t = (case map_of df t of None \<Rightarrow> 1 | Some n \<Rightarrow> if n = 0 then 1 else n)"

definition computeTfIdf :: "string list \<Rightarrow> nat obj \<Rightarrow> nat \<Rightarrow> real obj" where
  "computeTfIdf tokens df totalDocs =
     (let total = length tokens;
          tf = fold (\<lambda>t tf. increment tf t) tokens []
      in map (\<lambda>(t, n). (t, (real n / real total) * ln (real totalDocs / real (df_or_1 df t)))) tf)"

text \<open>The loop of \<^verbatim>\<open>cosineSimilarity\<close>: the values of \<^verbatim>\<open>dot\<close>, \<^verbatim>\<open>mag1\<close> and \<^verbatim>\<open>mag2\<close> when it
  ends.\<close>

definition cosine_sums :: "real obj \<Rightarrow> real obj \<Rightarrow> real \<times> real \<times> real" where
  "cosine_sums tf1 tf2 =
     (let terms = new_Set (map fst tf1 @ map fst tf2)
      in fold (\<lambda>term (dot, mag1, mag2).
                 let a = or_zero (map_of tf1 term);
                     b = or_zero (map_of tf2 term)
                 in (dot + a * b, mag1 + a * a, mag2 + b * b))
              terms (0, 0, 0))"

text \<open>The divisor of its \<^verbatim>\<open>return\<close>: \<^verbatim>\<open>Math.sqrt(mag1) * Math.sqrt(mag2) || 1\<close>.\<close>

definition cosine_divisor :: "real obj \<Rightarrow> real obj \<Rightarrow> real" where
  "cosine_divisor tf1 tf2 =
     (let (dot, mag1, mag2) = cosine_sums tf1 tf2
      in if sqrt mag1 * sqrt mag2 = 0 then 1 else sqrt mag1 * sqrt mag2)"

definition cosineSimilarity :: "real obj \<Rightarrow> real obj \<Rightarrow> real" where
  "cosineSimilarity tf1 tf2 =
     (let (dot, mag1, mag2) = cosine_sums tf1 tf2
      in dot / cosine_divisor tf1 tf2)"

definition calculateTFIDFCosineSimilarity ::
  "weights \<Rightarrow> string obj \<Rightarrow> string obj \<Rightarrow> issue \<Rightarrow> issue list \<Rightarrow> scored list" where
  "calculateTFIDFCosineSimilarity w phraseMap normalizationDictionary current others =
     (let all = current # others;
          summaries = map (\<lambda>doc. tokenize phraseMap normalizationDictionary (summary doc)) all;
          descriptions = map (\<lambda>doc. tokenize phraseMap normalizationDictionary (description doc)) all;
          summaryDf = computeDocumentFrequencies summaries;
          descDf = computeDocumentFrequencies descriptions;
          totalDocs = length all;
          tfidfSummaries = map (\<lambda>t. computeTfIdf t summaryDf totalDocs) summaries;
          tfidfDescriptions = map (\<lambda>t. computeTfIdf t descDf totalDocs) descriptions;
          currentSummaryTfIdf = tfidfSummaries ! 0;
          currentDescTfIdf = tfidfDescriptions ! 0
      in map (\<lambda>i.
           let summaryScore = cosineSimilarity currentSummaryTfIdf (tfidfSummaries ! i);
               descScore = cosineSimilarity currentDescTfIdf (tfidfDescriptions ! i)
           in \<lparr>key = key (all ! i),
               score = summaryScore * SUMMARY_WEIGHT w + descScore * DESCRIPTION_WEIGHT w\<rparr>)
           [1 ..< length all])"

section \<open>Semantic similarity from the remote service\<close>

text \<open>
  What one call of \<^verbatim>\<open>fetch\<close> to the service comes back with: the call throws
  (\<open>Rejected\<close>), the response is not \<^verbatim>\<open>ok\<close> (\<open>Not_ok\<close> with its status), the body is
  not the expected JSON array so that \<^verbatim>\<open>res.json()\<close> or \<^verbatim>\<open>result.reduce\<close> throws
  (\<open>Malformed\<close>), or the body is an array of \<^verbatim>\<open>{ key, score }\<close>.
\<close>

datatype response = Rejected | Not_ok nat | Malformed | Body "scored list"

text \<open>The request is sent to the service; the model receives the response and keeps the
  \<^verbatim>\<open>try\<close>/\<^verbatim>\<open>catch\<close>: every failure returns the empty object.\<close>

definition fetchSemanticSimilarity :: "response \<Rightarrow> real obj" where
  "fetchSemanticSimilarity res =
     (case res of
        Rejected \<Rightarrow> []
      | Not_ok status \<Rightarrow> []
      | Malformed \<Rightarrow> []
      | Body result \<Rightarrow> fold (\<lambda>e m. AList.update (key e) (score e) m) result [])"

definition calculateSemanticSimilarity ::
  "weights \<Rightarrow> response \<Rightarrow> response \<Rightarrow> issue \<Rightarrow> issue list \<Rightarrow> scored list" where
  "calculateSemanticSimilarity w summaryResponse descriptionResponse current others =
     (let summaryScores = fetchSemanticSimilarity summaryResponse;
          descriptionScores = fetchSemanticSimilarity descriptionResponse
      in map (\<lambda>issue.
           let summaryScore = or_zero (map_of summaryScores (key issue));
               descScore = or_zero (map_of descriptionScores (key issue))
           in \<lparr>key = key issue,
               score = summaryScore * SUMMARY_WEIGHT w + descScore * DESCRIPTION_WEIGHT w\<rparr>)
           others)"

section \<open>Merging the semantic and the lexical score\<close>

text \<open>\<^verbatim>\<open>tfidfScored.find(e => e.key === key)?.score || 0\<close>\<close>

definition tfidfScore_of :: "scored list \<Rightarrow> string \<Rightarrow> real" where
  "tfidfScore_of tfidfScored k =
     or_zero (map_option score (List.find (\<lambda>e. key e = k) tfidfScored))"

definition mergeSimilarityScores :: "weights \<Rightarrow> scored list \<Rightarrow> scored list \<Rightarrow> scored list" where
  "mergeSimilarityScores w semanticScored tfidfScored =
     map (\<lambda>e.
       let semanticScore = score e;
           tfidfScore = tfidfScore_of tfidfScored (key e)
       in \<lparr>key = key e,
           score = (if semanticScore \<ge> SEMANTIC_THRESHOLD w then semanticScore
                    else semanticScore * SEMANTIC_WEIGHT w + tfidfScore * TFIDF_WEIGHT w)\<rparr>)
       semanticScored"

section \<open>Metadata boost\<close>

text \<open>The body of \<^verbatim>\<open>applyBoostingLogic\<close> for a candidate whose metadata was found: the boost
  it adds to the score.\<close>

definition boost_of :: "weights \<Rightarrow> metadata \<Rightarrow> issue_metadata \<Rightarrow> real" where
  "boost_of w currentMetadata issueMeta =
     (let boost = 0;
          boost = (if issuetype issueMeta = issuetype currentMetadata
                   then boost + BOOST_ISSUETYPE_MATCH w else boost);
          currentLabels = new_Set (labels currentMetadata);
          otherLabels = new_Set (labels issueMeta);
          boost = fold (\<lambda>label boost.
                    if label \<in> set otherLabels then boost + BOOST_LABELS_OVERLAP w else boost)
                    currentLabels boost;
          currentComponents = new_Set (map name (components currentMetadata));
          otherComponents = new_Set (map name (components issueMeta));
          boost = fold (\<lambda>comp boost.
                    if comp \<in> set otherComponents then boost + BOOST_COMPONENTS_OVERLAP w else boost)
                    currentComponents boost
      in min boost (MAX_BOOST w))"

definition applyBoostingLogic ::
  "weights \<Rightarrow> metadata \<Rightarrow> issue_metadata list \<Rightarrow> scored list \<Rightarrow> scored list" where
  "applyBoostingLogic w currentMetadata othersMetadata baseScored =
     map (\<lambda>e.
       case List.find (\<lambda>i. issue_metadata.key i = key e) othersMetadata of
         None \<Rightarrow> \<lparr>key = key e, score = score e\<rparr>
       | Some issueMeta \<Rightarrow>
           \<lparr>key = key e, score = score e + boost_of w currentMetadata issueMeta\<rparr>)
       baseScored"

section \<open>The resolver\<close>

text \<open>\<^verbatim>\<open>Math.round\<close>: the nearest integer, a tie going up.\<close>

definition Math_round :: "real \<Rightarrow> real" where
  "Math_round x = of_int \<lfloor>x + 1 / 2\<rfloor>"

text \<open>\<^verbatim>\<open>Array.prototype.sort\<close> with a comparison function: a stable sort, which puts \<open>a\<close>
  before \<open>b\<close> when \<open>cmp a b < 0\<close> and keeps their order when \<open>cmp a b = 0\<close>.\<close>

fun insert_by :: "('a \<Rightarrow> 'a \<Rightarrow> real) \<Rightarrow> 'a \<Rightarrow> 'a list \<Rightarrow> 'a list" where
  "insert_by cmp x [] = [x]"
| "insert_by cmp x (y # ys) = (if cmp x y \<le> 0 then x # y # ys else y # insert_by cmp x ys)"

definition Array_sort :: "('a \<Rightarrow> 'a \<Rightarrow> real) \<Rightarrow> 'a list \<Rightarrow> 'a list" where
  "Array_sort cmp xs = foldr (insert_by cmp) xs []"

text \<open>Step 3 of the resolver \<^verbatim>\<open>fetchIssues\<close>: the merged scores, and the boosted ones.\<close>

definition semantic_tfidf_weighted_Scored ::
  "weights \<Rightarrow> string obj \<Rightarrow> string obj \<Rightarrow> response \<Rightarrow> response \<Rightarrow> issue \<Rightarrow> issue list
   \<Rightarrow> scored list" where
  "semantic_tfidf_weighted_Scored w phraseMap normalizationDictionary summaryResponse
       descriptionResponse current others =
     (let semanticScored =
            calculateSemanticSimilarity w summaryResponse descriptionResponse current others;
          tfidfScored =
            calculateTFIDFCosineSimilarity w phraseMap normalizationDictionary current others
      in mergeSimilarityScores w semanticScored tfidfScored)"

definition boosted_Scored ::
  "weights \<Rightarrow> string obj \<Rightarrow> string obj \<Rightarrow> response \<Rightarrow> response \<Rightarrow> issue \<Rightarrow> issue list
   \<Rightarrow> metadata \<Rightarrow> issue_metadata list \<Rightarrow> scored list" where
  "boosted_Scored w phraseMap normalizationDictionary summaryResponse descriptionResponse
       currentIssue others currentMetadata othersMetadata =
     applyBoostingLogic w currentMetadata othersMetadata
       (semantic_tfidf_weighted_Scored w phraseMap normalizationDictionary
          summaryResponse descriptionResponse currentIssue others)"

text \<open>Step 4: summary and description attached, the score rounded to two decimals and
  capped at 1.\<close>

definition similarityScored ::
  "weights \<Rightarrow> string obj \<Rightarrow> string obj \<Rightarrow> response \<Rightarrow> response \<Rightarrow> issue \<Rightarrow> issue list
   \<Rightarrow> metadata \<Rightarrow> issue_metadata list \<Rightarrow> similar_issue list" where
  "similarityScored w phraseMap normalizationDictionary summaryResponse descriptionResponse
       currentIssue others currentMetadata othersMetadata =
     map (\<lambda>e.
       let issue = List.find (\<lambda>i. key i = key e) others
       in \<lparr>key = key e,
           summary = (case issue of None \<Rightarrow> [] | Some i \<Rightarrow> summary i),
           description = (case issue of None \<Rightarrow> [] | Some i \<Rightarrow> description i),
           similar_issue.score = min (Math_round (score e * 100) / 100) 1\<rparr>)
       (boosted_Scored w phraseMap normalizationDictionary summaryResponse descriptionResponse
          currentIssue others currentMetadata othersMetadata)"

text \<open>
  Steps 3 to 5 of the resolver \<^verbatim>\<open>fetchIssues\<close>. Steps 1 and 2 fetch the current issue and
  all other issues of its project from Jira and build \<open>current\<close>, \<open>others\<close>,
  \<open>currentMetadata\<close> and \<open>othersMetadata\<close> from them; those four and the two responses of
  the semantic service are the inputs here. Step 5 sorts by descending score and keeps
  \<^verbatim>\<open>slice(0, 10)\<close>.
\<close>

record resolved =
  current :: issue
  similar :: "similar_issue list"

definition fetchIssues ::
  "weights \<Rightarrow> string obj \<Rightarrow> string obj \<Rightarrow> response \<Rightarrow> response \<Rightarrow> issue \<Rightarrow> issue list
   \<Rightarrow> metadata \<Rightarrow> issue_metadata list \<Rightarrow> resolved" where
  "fetchIssues w phraseMap normalizationDictionary summaryResponse descriptionResponse
       currentIssue others currentMetadata othersMetadata =
     (let sorted = Array_sort (\<lambda>a b. similar_issue.score b - similar_issue.score a)
            (similarityScored w phraseMap normalizationDictionary summaryResponse
               descriptionResponse currentIssue others currentMetadata othersMetadata)
      in \<lparr>current = currentIssue, similar = take 10 sorted\<rparr>)"

section \<open>Formulas of the specification and names for parts of the source\<close>

text \<open>The accumulated boost in the words of the specification: the issue-type boost when the
  two issue type ids are equal (two missing ids are equal), the label boost once for each
  distinct label in both label sets, the component boost once for each distinct component
  name in both.\<close>

definition accumulated :: "weights \<Rightarrow> metadata \<Rightarrow> issue_metadata \<Rightarrow> real" where
  "accumulated w query candidate =
     (if issuetype query = issuetype candidate then BOOST_ISSUETYPE_MATCH w else 0)
     + BOOST_LABELS_OVERLAP w * real (card (set (labels query) \<inter> set (labels candidate)))
     + BOOST_COMPONENTS_OVERLAP w
       * real (card (set (map name (components query)) \<inter> set (map name (components candidate))))"

text \<open>The boost \<^verbatim>\<open>applyBoostingLogic\<close> adds for the candidate with key \<open>k\<close>: none when
  \<^verbatim>\<open>othersMetadata.find\<close> finds no entry.\<close>

definition candidate_boost :: "weights \<Rightarrow> metadata \<Rightarrow> issue_metadata list \<Rightarrow> string \<Rightarrow> real" where
  "candidate_boost w currentMetadata othersMetadata k =
     (case List.find (\<lambda>i. issue_metadata.key i = k) othersMetadata of
        None \<Rightarrow> 0
      | Some issueMeta \<Rightarrow> boost_of w currentMetadata issueMeta)"

text \<open>A call of the semantic service that did not deliver scores.\<close>

definition failed :: "response \<Rightarrow> bool" where
  "failed res = (case res of Body result \<Rightarrow> False | _ \<Rightarrow> True)"

text \<open>The TF-IDF weight in the words of the specification: term frequency
  \<open>occurrences / length\<close> times \<open>ln (totalDocs / max df 1)\<close>, a token absent from the index
  having \<open>df = 1\<close>.\<close>

definition document_frequency :: "nat obj \<Rightarrow> string \<Rightarrow> nat" where
  "document_frequency df token = (case map_of df token of None \<Rightarrow> 1 | Some n \<Rightarrow> n)"

definition tf_idf_weight :: "string list \<Rightarrow> nat obj \<Rightarrow> nat \<Rightarrow> string \<Rightarrow> real" where
  "tf_idf_weight tokens df totalDocs token =
     (real (count_list tokens token) / real (length tokens))
     * ln (real totalDocs / real (max (document_frequency df token) 1))"

text \<open>The dot product and the magnitude of vectors given as objects: the sums range over
  the keys, a key absent from a vector having weight \<open>0\<close>.\<close>

definition dot_product :: "real obj \<Rightarrow> real obj \<Rightarrow> real" where
  "dot_product a b =
     (\<Sum>t \<in> fst ` set a \<union> fst ` set b. or_zero (map_of a t) * or_zero (map_of b t))"

definition magnitude :: "real obj \<Rightarrow> real" where
  "magnitude a = sqrt (\<Sum>t \<in> fst ` set a. (or_zero (map_of a t))\<^sup>2)"

text \<open>The values of \<^verbatim>\<open>summaryScore\<close> and \<^verbatim>\<open>descScore\<close> in the loop of
  \<^verbatim>\<open>calculateTFIDFCosineSimilarity\<close> for the candidate \<open>others ! i\<close>, which is \<^verbatim>\<open>all[i + 1]\<close>: the
  cosine of the current issue's vector and the candidate's, per field.\<close>

definition summaryScore :: "string obj \<Rightarrow> string obj \<Rightarrow> issue \<Rightarrow> issue list \<Rightarrow> nat \<Rightarrow> real" where
  "summaryScore phraseMap normalizationDictionary currentIssue others i =
     (let all = currentIssue # others;
          summaries = map (\<lambda>doc. tokenize phraseMap normalizationDictionary (summary doc)) all;
          summaryDf = computeDocumentFrequencies summaries
      in cosineSimilarity (computeTfIdf (summaries ! 0) summaryDf (length all))
           (computeTfIdf (summaries ! (i + 1)) summaryDf (length all)))"

definition descScore :: "string obj \<Rightarrow> string obj \<Rightarrow> issue \<Rightarrow> issue list \<Rightarrow> nat \<Rightarrow> real" where
  "descScore phraseMap normalizationDictionary currentIssue others i =
     (let all = currentIssue # others;
          descriptions = map (\<lambda>doc. tokenize phraseMap normalizationDictionary (description doc)) all;
          descDf = computeDocumentFrequencies descriptions
      in cosineSimilarity (computeTfIdf (descriptions ! 0) descDf (length all))
           (computeTfIdf (descriptions ! (i + 1)) descDf (length all)))"

text \<open>The assumptions of the bound on the emitted score: no weight the score is built
  from is negative, and every score the semantic service delivers lies in \<open>[0, 1]\<close>.\<close>

definition nonneg_weights :: "weights \<Rightarrow> bool" where
  "nonneg_weights w =
     (0 \<le> SUMMARY_WEIGHT w \<and> 0 \<le> DESCRIPTION_WEIGHT w \<and> 0 \<le> SEMANTIC_WEIGHT w
      \<and> 0 \<le> TFIDF_WEIGHT w \<and> 0 \<le> MAX_BOOST w \<and> 0 \<le> BOOST_ISSUETYPE_MATCH w
      \<and> 0 \<le> BOOST_LABELS_OVERLAP w \<and> 0 \<le> BOOST_COMPONENTS_OVERLAP w)"

definition unit_scores :: "response \<Rightarrow> bool" where
  "unit_scores res =
     (case res of
        Body result \<Rightarrow> list_all (\<lambda>e. 0 \<le> score e \<and> score e \<le> 1) result
      | _ \<Rightarrow> True)"

section \<open>Properties\<close>

lemma or_zero_simps: "or_zero None = 0" "or_zero (Some v) = v"
  by (simp_all add: or_zero_def)

lemma find_None_key: "k \<notin> key ` set xs \<Longrightarrow> List.find (\<lambda>e. key e = k) xs = None"
  by (induction xs) auto

lemma tfidfScore_of_absent: "k \<notin> key ` set tfidfScored \<Longrightarrow> tfidfScore_of tfidfScored k = 0"
  by (simp add: tfidfScore_of_def find_None_key or_zero_simps)

lemma merge_length: "length (mergeSimilarityScores w sem tf) = length sem"
  by (simp add: mergeSimilarityScores_def)

lemma merge_keys: "map key (mergeSimilarityScores w sem tf) = map key sem"
  by (simp add: mergeSimilarityScores_def Let_def comp_def)

lemma merge_nth:
  "i < length sem \<Longrightarrow>
   score (mergeSimilarityScores w sem tf ! i) =
     (if SEMANTIC_THRESHOLD w \<le> score (sem ! i) then score (sem ! i)
      else score (sem ! i) * SEMANTIC_WEIGHT w
           + tfidfScore_of tf (key (sem ! i)) * TFIDF_WEIGHT w)"
  by (simp add: mergeSimilarityScores_def Let_def)



lemma fold_Set_add_set: "set (fold (\<lambda>x s. Set_add s x) xs acc) = set acc \<union> set xs"
  by (induction xs arbitrary: acc) (auto simp: Set_add_def)

lemma fold_Set_add_distinct: "distinct acc \<Longrightarrow> distinct (fold (\<lambda>x s. Set_add s x) xs acc)"
  by (induction xs arbitrary: acc) (auto simp: Set_add_def)

lemma set_new_Set: "set (new_Set xs) = set xs"
  by (simp add: new_Set_def fold_Set_add_set)

lemma distinct_new_Set: "distinct (new_Set xs)"
  by (simp add: new_Set_def fold_Set_add_distinct)

lemma fold_overlap:
  "distinct xs \<Longrightarrow>
   fold (\<lambda>x (b::real). if x \<in> S then b + c else b) xs b0 = b0 + c * real (card (set xs \<inter> S))"
proof (induction xs arbitrary: b0)
  case Nil
  then show ?case by simp
next
  case (Cons x xs)
  have fin: "finite (set xs \<inter> S)" by simp
  show ?case
  proof (cases "x \<in> S")
    case True
    then have "insert x (set xs) \<inter> S = insert x (set xs \<inter> S)" by auto
    moreover have "x \<notin> set xs \<inter> S" using Cons.prems by simp
    ultimately have "card (insert x (set xs) \<inter> S) = Suc (card (set xs \<inter> S))"
      using fin by simp
    with True Cons show ?thesis by (simp add: algebra_simps)
  next
    case False
    then have "insert x (set xs) \<inter> S = set xs \<inter> S" by auto
    with False Cons show ?thesis by simp
  qed
qed

lemma boost_of_closed:
  "boost_of w cur m =
     min ((if issuetype m = issuetype cur then BOOST_ISSUETYPE_MATCH w else 0)
          + BOOST_LABELS_OVERLAP w * real (card (set (labels cur) \<inter> set (labels m)))
          + BOOST_COMPONENTS_OVERLAP w
            * real (card (name ` set (components cur) \<inter> name ` set (components m))))
         (MAX_BOOST w)"
  by (simp add: boost_of_def Let_def fold_overlap distinct_new_Set set_new_Set)

lemma boost_nth:
  "i < length base \<Longrightarrow>
   applyBoostingLogic w cur metas base ! i =
     (case List.find (\<lambda>m. issue_metadata.key m = key (base ! i)) metas of
        None \<Rightarrow> \<lparr>key = key (base ! i), score = score (base ! i)\<rparr>
      | Some m \<Rightarrow> \<lparr>key = key (base ! i), score = score (base ! i) + boost_of w cur m\<rparr>)"
  by (simp add: applyBoostingLogic_def)

lemma boost_nth_candidate:
  "i < length base \<Longrightarrow>
   applyBoostingLogic w cur metas base ! i =
     \<lparr>key = key (base ! i),
      score = score (base ! i) + candidate_boost w cur metas (key (base ! i))\<rparr>"
  by (simp add: boost_nth candidate_boost_def split: option.split)

text \<open>
  C3. The boost of a candidate whose metadata is found is \<open>min accumulated MAX_BOOST\<close>,
  the accumulation being the issue-type boost for equal issue type ids, the label boost
  once per distinct label in both label sets and the component boost once per distinct
  component name in both; a candidate without a metadata entry gets boost \<open>0\<close>, and
  \<^verbatim>\<open>applyBoostingLogic\<close> returns an entry for it all the same.
\<close>

theorem boost_formula:
  "boost_of w currentMetadata issueMeta
     = min (accumulated w currentMetadata issueMeta) (MAX_BOOST w)
   \<and> (List.find (\<lambda>m. issue_metadata.key m = k) othersMetadata = Some issueMeta
        \<longrightarrow> candidate_boost w currentMetadata othersMetadata k
              = min (accumulated w currentMetadata issueMeta) (MAX_BOOST w))
   \<and> (List.find (\<lambda>m. issue_metadata.key m = k) othersMetadata = None
        \<longrightarrow> candidate_boost w currentMetadata othersMetadata k = 0)
   \<and> (i < length baseScored
        \<longrightarrow> applyBoostingLogic w currentMetadata othersMetadata baseScored ! i
              = \<lparr>key = key (baseScored ! i),
                 score = score (baseScored ! i)
                         + candidate_boost w currentMetadata othersMetadata (key (baseScored ! i))\<rparr>)"
proof -
  have closed: "boost_of w currentMetadata m = min (accumulated w currentMetadata m) (MAX_BOOST w)" for m
    unfolding boost_of_closed accumulated_def by (simp add: eq_commute [of "issuetype m"])
  show ?thesis
    by (simp add: closed candidate_boost_def boost_nth_candidate)
qed

theorem boost_formula_witness:
  "score (applyBoostingLogic config
      \<lparr>issuetype = Some ''10001'', labels = [''ui'', ''login'', ''ui''],
       components = [\<lparr>name = ''web''\<rparr>]\<rparr>
      [\<lparr>issuetype = Some ''10001'', labels = [''login'', ''ui'', ''mobile''],
        components = [\<lparr>name = ''api''\<rparr>, \<lparr>name = ''web''\<rparr>], issue_metadata.key = ''A-1''\<rparr>]
      [\<lparr>key = ''A-1'', score = 1 / 2\<rparr>, \<lparr>key = ''A-2'', score = 1 / 2\<rparr>] ! 0) = 6 / 10
   \<and> score (applyBoostingLogic config
      \<lparr>issuetype = Some ''10001'', labels = [''ui'', ''login'', ''ui''],
       components = [\<lparr>name = ''web''\<rparr>]\<rparr>
      [\<lparr>issuetype = Some ''10001'', labels = [''login'', ''ui'', ''mobile''],
        components = [\<lparr>name = ''api''\<rparr>, \<lparr>name = ''web''\<rparr>], issue_metadata.key = ''A-1''\<rparr>]
      [\<lparr>key = ''A-1'', score = 1 / 2\<rparr>, \<lparr>key = ''A-2'', score = 1 / 2\<rparr>] ! 1) = 1 / 2"
  using boost_formula [of config
      "\<lparr>issuetype = Some ''10001'', labels = [''ui'', ''login'', ''ui''],
       components = [\<lparr>name = ''web''\<rparr>]\<rparr>"
      "\<lparr>issuetype = Some ''10001'', labels = [''login'', ''ui'', ''mobile''],
        components = [\<lparr>name = ''api''\<rparr>, \<lparr>name = ''web''\<rparr>], issue_metadata.key = ''A-1''\<rparr>"
      "''A-1''"
      "[\<lparr>issuetype = Some ''10001'', labels = [''login'', ''ui'', ''mobile''],
        components = [\<lparr>name = ''api''\<rparr>, \<lparr>name = ''web''\<rparr>], issue_metadata.key = ''A-1''\<rparr>]"
      0 "[\<lparr>key = ''A-1'', score = 1 / 2\<rparr>, \<lparr>key = ''A-2'', score = 1 / 2\<rparr>]"]
    boost_formula [of config
      "\<lparr>issuetype = Some ''10001'', labels = [''ui'', ''login'', ''ui''],
       components = [\<lparr>name = ''web''\<rparr>]\<rparr>"
      "\<lparr>issuetype = Some ''10001'', labels = [''login'', ''ui'', ''mobile''],
        components = [\<lparr>name = ''api''\<rparr>, \<lparr>name = ''web''\<rparr>], issue_metadata.key = ''A-1''\<rparr>"
      "''A-2''"
      "[\<lparr>issuetype = Some ''10001'', labels = [''login'', ''ui'', ''mobile''],
        components = [\<lparr>name = ''api''\<rparr>, \<lparr>name = ''web''\<rparr>], issue_metadata.key = ''A-1''\<rparr>]"
      1 "[\<lparr>key = ''A-1'', score = 1 / 2\<rparr>, \<lparr>key = ''A-2'', score = 1 / 2\<rparr>]"]
  by (simp add: config_def boost_of_def candidate_boost_def new_Set_def Set_add_def)

text \<open>
  C10. \<^verbatim>\<open>mergeSimilarityScores\<close> returns one entry per entry of the semantic list, with the
  same key at the same position; a key that occurs only in the lexical list has no entry
  in the result, and a candidate without a lexical entry is merged with lexical score \<open>0\<close>.
\<close>

theorem merge_follows_semantic_list:
  "length (mergeSimilarityScores w semanticScored tfidfScored) = length semanticScored
   \<and> map key (mergeSimilarityScores w semanticScored tfidfScored) = map key semanticScored
   \<and> (k \<notin> key ` set semanticScored
        \<longrightarrow> k \<notin> key ` set (mergeSimilarityScores w semanticScored tfidfScored))
   \<and> (i < length semanticScored \<and> key (semanticScored ! i) \<notin> key ` set tfidfScored
        \<longrightarrow> score (mergeSimilarityScores w semanticScored tfidfScored ! i)
              = (if score (semanticScored ! i) \<ge> SEMANTIC_THRESHOLD w
                 then score (semanticScored ! i)
                 else score (semanticScored ! i) * SEMANTIC_WEIGHT w + 0 * TFIDF_WEIGHT w))"
proof -
  have "key ` set (mergeSimilarityScores w semanticScored tfidfScored) = key ` set semanticScored"
    using merge_keys [of w semanticScored tfidfScored] by (metis set_map)
  then show ?thesis
    by (simp add: merge_length merge_keys merge_nth tfidfScore_of_absent)
qed

theorem merge_follows_semantic_list_witness:
  "map key (mergeSimilarityScores config
      [\<lparr>key = ''A-1'', score = 1 / 2\<rparr>, \<lparr>key = ''A-2'', score = 3 / 10\<rparr>]
      [\<lparr>key = ''A-9'', score = 1\<rparr>, \<lparr>key = ''A-1'', score = 1\<rparr>]) = [''A-1'', ''A-2'']
   \<and> ''A-9'' \<notin> key ` set (mergeSimilarityScores config
      [\<lparr>key = ''A-1'', score = 1 / 2\<rparr>, \<lparr>key = ''A-2'', score = 3 / 10\<rparr>]
      [\<lparr>key = ''A-9'', score = 1\<rparr>, \<lparr>key = ''A-1'', score = 1\<rparr>])
   \<and> score (mergeSimilarityScores config
      [\<lparr>key = ''A-1'', score = 1 / 2\<rparr>, \<lparr>key = ''A-2'', score = 3 / 10\<rparr>]
      [\<lparr>key = ''A-9'', score = 1\<rparr>, \<lparr>key = ''A-1'', score = 1\<rparr>] ! 1) = 24 / 100"
  using merge_follows_semantic_list [of config
      "[\<lparr>key = ''A-1'', score = 1 / 2\<rparr>, \<lparr>key = ''A-2'', score = 3 / 10\<rparr>]"
      "[\<lparr>key = ''A-9'', score = 1\<rparr>, \<lparr>key = ''A-1'', score = 1\<rparr>]" "''A-9''" 1]
  by (simp add: config_def)

lemma fetch_failed: "failed res \<Longrightarrow> fetchSemanticSimilarity res = []"
  by (cases res) (simp_all add: failed_def fetchSemanticSimilarity_def)

lemma map_of_absent: "k \<notin> fst ` set m \<Longrightarrow> map_of m k = None"
  by (simp add: map_of_eq_None_iff)

lemma semantic_length:
  "length (calculateSemanticSimilarity w r1 r2 cur others) = length others"
  by (simp add: calculateSemanticSimilarity_def Let_def)

lemma semantic_nth:
  "i < length others \<Longrightarrow>
   calculateSemanticSimilarity w r1 r2 cur others ! i =
     \<lparr>key = key (others ! i),
      score = or_zero (map_of (fetchSemanticSimilarity r1) (key (others ! i))) * SUMMARY_WEIGHT w
            + or_zero (map_of (fetchSemanticSimilarity r2) (key (others ! i))) * DESCRIPTION_WEIGHT w\<rparr>"
  by (simp add: calculateSemanticSimilarity_def Let_def)

lemma semantic_keys:
  "map key (calculateSemanticSimilarity w r1 r2 cur others) = map key others"
  by (simp add: calculateSemanticSimilarity_def Let_def comp_def)

lemma boost_length: "length (applyBoostingLogic w cm om base) = length base"
  by (simp add: applyBoostingLogic_def)

lemma boost_keys: "map key (applyBoostingLogic w cm om base) = map key base"
  by (simp add: applyBoostingLogic_def comp_def split: option.split)

lemma merged_length:
  "length (semantic_tfidf_weighted_Scored w pm nd r1 r2 cur others) = length others"
  by (simp add: semantic_tfidf_weighted_Scored_def Let_def merge_length semantic_length)

lemma merged_keys:
  "map key (semantic_tfidf_weighted_Scored w pm nd r1 r2 cur others) = map key others"
  by (simp add: semantic_tfidf_weighted_Scored_def Let_def merge_keys semantic_keys)

lemma boosted_length:
  "length (boosted_Scored w pm nd r1 r2 cur others cm om) = length others"
  by (simp add: boosted_Scored_def boost_length merged_length)

lemma boosted_keys:
  "map key (boosted_Scored w pm nd r1 r2 cur others cm om) = map key others"
  by (simp add: boosted_Scored_def boost_keys merged_keys)

lemma similarityScored_length:
  "length (similarityScored w pm nd r1 r2 cur others cm om) = length others"
  by (simp add: similarityScored_def boosted_length)

lemma similarityScored_keys:
  "map key (similarityScored w pm nd r1 r2 cur others cm om) = map key others"
  using boosted_keys [of w pm nd r1 r2 cur others cm om]
  by (simp add: similarityScored_def Let_def comp_def)

lemma length_insert_by: "length (insert_by cmp x ys) = Suc (length ys)"
  by (induction ys) simp_all

lemma length_Array_sort: "length (Array_sort cmp xs) = length xs"
  by (induction xs) (simp_all add: Array_sort_def length_insert_by)

lemma set_insert_by: "set (insert_by cmp x ys) = insert x (set ys)"
  by (induction ys) auto

lemma set_Array_sort: "set (Array_sort cmp xs) = set xs"
  by (induction xs) (simp_all add: Array_sort_def set_insert_by)

lemma similar_length:
  "length (similar (fetchIssues w pm nd r1 r2 cur others cm om)) = min (length others) 10"
  by (simp add: fetchIssues_def Let_def length_Array_sort similarityScored_length)

lemma filter_insert_by:
  "filter (\<lambda>r. f r = s) (insert_by (\<lambda>a b. f b - f a) x ys) =
     (if f x = s then x # filter (\<lambda>r. f r = s) ys else filter (\<lambda>r. f r = s) ys)"
  for f :: "'a \<Rightarrow> real"
  by (induction ys) auto

lemma filter_Array_sort:
  "filter (\<lambda>r. f r = s) (Array_sort (\<lambda>a b. f b - f a) xs) = filter (\<lambda>r. f r = s) xs"
  for f :: "'a \<Rightarrow> real"
  by (induction xs) (simp_all add: Array_sort_def filter_insert_by)

lemma sorted_insert_by:
  "sorted_wrt (\<lambda>a b. f a \<ge> f b) ys \<Longrightarrow>
   sorted_wrt (\<lambda>a b. f a \<ge> f b) (insert_by (\<lambda>a b. f b - f a) x ys)"
  for f :: "'a \<Rightarrow> real"
  by (induction ys) (auto simp: set_insert_by)

lemma sorted_Array_sort:
  "sorted_wrt (\<lambda>a b. f a \<ge> f b) (Array_sort (\<lambda>a b. f b - f a) xs)"
  for f :: "'a \<Rightarrow> real"
  by (induction xs) (simp_all add: Array_sort_def sorted_insert_by)

lemma sorted_wrt_take_ge: "sorted_wrt P xs \<Longrightarrow> sorted_wrt P (take n xs)"
  by (simp add: sorted_wrt_take)

text \<open>
  C5. The ranking is a stable sort by descending score: for every score \<open>s\<close>, the emitted
  entries with score \<open>s\<close> are, in the emitted order, an initial part of the entries with
  score \<open>s\<close> of \<^verbatim>\<open>similarityScored\<close>, whose entries stand in the order of the candidates
  given to the resolver; and the emitted list descends by score.
\<close>

theorem ranking_is_stable:
  "prefix (filter (\<lambda>r. similar_issue.score r = s)
             (similar (fetchIssues w pm nd r1 r2 cur others cm om)))
          (filter (\<lambda>r. similar_issue.score r = s)
             (similarityScored w pm nd r1 r2 cur others cm om))
   \<and> map key (similarityScored w pm nd r1 r2 cur others cm om) = map key others
   \<and> sorted_wrt (\<lambda>a b. similar_issue.score a \<ge> similar_issue.score b)
        (similar (fetchIssues w pm nd r1 r2 cur others cm om))"
proof -
  let ?xs = "similarityScored w pm nd r1 r2 cur others cm om"
  let ?sorted = "Array_sort (\<lambda>a b. similar_issue.score b - similar_issue.score a) ?xs"
  have out: "similar (fetchIssues w pm nd r1 r2 cur others cm om) = take 10 ?sorted"
    by (simp add: fetchIssues_def Let_def)
  have "prefix (filter (\<lambda>r. similar_issue.score r = s) (take 10 ?sorted))
               (filter (\<lambda>r. similar_issue.score r = s) ?sorted)"
    by (rule filter_mono_prefix) (rule take_is_prefix)
  then have stable: "prefix (filter (\<lambda>r. similar_issue.score r = s) (take 10 ?sorted))
               (filter (\<lambda>r. similar_issue.score r = s) ?xs)"
    by (simp only: filter_Array_sort)
  have "sorted_wrt (\<lambda>a b. similar_issue.score a \<ge> similar_issue.score b) (take 10 ?sorted)"
    by (rule sorted_wrt_take) (rule sorted_Array_sort)
  with stable show ?thesis
    by (simp only: out similarityScored_keys simp_thms)
qed

theorem ranking_is_stable_witness:
  "map key (similar (fetchIssues config [] []
        (Body [\<lparr>key = ''A-1'', score = 3 / 4\<rparr>, \<lparr>key = ''A-2'', score = 9 / 10\<rparr>,
               \<lparr>key = ''A-3'', score = 3 / 4\<rparr>])
        (Body [\<lparr>key = ''A-1'', score = 3 / 4\<rparr>, \<lparr>key = ''A-2'', score = 9 / 10\<rparr>,
               \<lparr>key = ''A-3'', score = 3 / 4\<rparr>])
        \<lparr>key = ''A-0'', summary = ''login fails'', description = ''''\<rparr>
        [\<lparr>key = ''A-1'', summary = ''a'', description = ''''\<rparr>,
         \<lparr>key = ''A-2'', summary = ''b'', description = ''''\<rparr>,
         \<lparr>key = ''A-3'', summary = ''c'', description = ''''\<rparr>]
        \<lparr>issuetype = None, labels = [], components = []\<rparr> []))
    = [''A-2'', ''A-1'', ''A-3'']"
  using ranking_is_stable [of "3 / 4" config "[]" "[]"
        "Body [\<lparr>key = ''A-1'', score = 3 / 4\<rparr>, \<lparr>key = ''A-2'', score = 9 / 10\<rparr>,
               \<lparr>key = ''A-3'', score = 3 / 4\<rparr>]"
        "Body [\<lparr>key = ''A-1'', score = 3 / 4\<rparr>, \<lparr>key = ''A-2'', score = 9 / 10\<rparr>,
               \<lparr>key = ''A-3'', score = 3 / 4\<rparr>]"]
  by (simp add: fetchIssues_def similarityScored_def boosted_Scored_def
      semantic_tfidf_weighted_Scored_def applyBoostingLogic_def mergeSimilarityScores_def
      calculateSemanticSimilarity_def fetchSemanticSimilarity_def or_zero_def config_def
      Array_sort_def Math_round_def Let_def)

text \<open>
  C6, as the resolver has it. The result is cut to its first ten entries by the constant
  \<^verbatim>\<open>slice(0, 10)\<close>, for every configuration of the weights: it has \<open>min n 10\<close> entries for
  \<open>n\<close> candidates, so never more than ten. No option of the configuration sets the bound.
\<close>

theorem top_ten_only:
  "length (similar (fetchIssues w pm nd r1 r2 cur others cm om)) = min (length others) 10
   \<and> length (similar (fetchIssues w pm nd r1 r2 cur others cm om)) \<le> 10"
  by (simp add: similar_length)

text \<open>
  C6 as stated does not hold: the bound is not configurable. With a bound of five, six
  candidates would have to be cut to five; the resolver returns all six.
\<close>

theorem top_n_counterexample:
  "\<not> length (similar (fetchIssues config [] [] Rejected Rejected
        \<lparr>key = ''A-0'', summary = ''login fails'', description = ''''\<rparr>
        [\<lparr>key = ''A-1'', summary = ''a'', description = ''''\<rparr>,
         \<lparr>key = ''A-2'', summary = ''b'', description = ''''\<rparr>,
         \<lparr>key = ''A-3'', summary = ''c'', description = ''''\<rparr>,
         \<lparr>key = ''A-4'', summary = ''d'', description = ''''\<rparr>,
         \<lparr>key = ''A-5'', summary = ''e'', description = ''''\<rparr>,
         \<lparr>key = ''A-6'', summary = ''f'', description = ''''\<rparr>]
        \<lparr>issuetype = None, labels = [], components = []\<rparr> [])) \<le> 5"
  by (simp add: similar_length)

text \<open>
  C9. A call of the semantic service that fails (the call throws, the response is not
  \<^verbatim>\<open>ok\<close>, the body cannot be read) yields the empty mapping; a candidate whose key is
  missing from a field's mapping gets \<open>0\<close> for that field; and whatever the two responses
  are the aggregation returns one entry per candidate. When both calls fail every semantic
  score is \<open>0\<close> and the resolver still returns its ranked list.
\<close>

theorem semantic_failure_scores_zero:
  "(failed res \<longrightarrow> fetchSemanticSimilarity res = [])
   \<and> length (calculateSemanticSimilarity w summaryResponse descriptionResponse cur others)
       = length others
   \<and> (i < length others \<and> key (others ! i) \<notin> fst ` set (fetchSemanticSimilarity summaryResponse)
        \<longrightarrow> calculateSemanticSimilarity w summaryResponse descriptionResponse cur others ! i
            = \<lparr>key = key (others ! i),
               score = 0 * SUMMARY_WEIGHT w
                 + or_zero (map_of (fetchSemanticSimilarity descriptionResponse) (key (others ! i)))
                   * DESCRIPTION_WEIGHT w\<rparr>)
   \<and> (i < length others \<and> key (others ! i) \<notin> fst ` set (fetchSemanticSimilarity descriptionResponse)
        \<longrightarrow> calculateSemanticSimilarity w summaryResponse descriptionResponse cur others ! i
            = \<lparr>key = key (others ! i),
               score = or_zero (map_of (fetchSemanticSimilarity summaryResponse) (key (others ! i)))
                   * SUMMARY_WEIGHT w
                 + 0 * DESCRIPTION_WEIGHT w\<rparr>)
   \<and> (failed summaryResponse \<and> failed descriptionResponse
        \<longrightarrow> calculateSemanticSimilarity w summaryResponse descriptionResponse cur others
              = map (\<lambda>issue. \<lparr>key = key issue, score = 0\<rparr>) others
            \<and> length (similar (fetchIssues w pm nd summaryResponse descriptionResponse
                                 cur others cm om)) = min (length others) 10)"
proof -
  have both: "calculateSemanticSimilarity w summaryResponse descriptionResponse cur others
              = map (\<lambda>issue. \<lparr>key = key issue, score = 0\<rparr>) others"
    if "failed summaryResponse" "failed descriptionResponse"
    using that by (simp add: calculateSemanticSimilarity_def fetch_failed or_zero_simps)
  show ?thesis
    using both
    by (simp add: fetch_failed semantic_length semantic_nth map_of_absent or_zero_simps
        similar_length)
qed

theorem semantic_failure_scores_zero_witness:
  "failed (Not_ok 503) \<and> failed Rejected \<and> failed Malformed
   \<and> fetchSemanticSimilarity (Not_ok 503) = []
   \<and> calculateSemanticSimilarity config (Not_ok 503) Rejected
        \<lparr>key = ''A-0'', summary = ''login fails'', description = ''x''\<rparr>
        [\<lparr>key = ''A-1'', summary = ''login fails on mobile'', description = ''''\<rparr>,
         \<lparr>key = ''A-2'', summary = ''crash'', description = ''y''\<rparr>]
      = [\<lparr>key = ''A-1'', score = 0\<rparr>, \<lparr>key = ''A-2'', score = 0\<rparr>]
   \<and> calculateSemanticSimilarity config
        (Body [\<lparr>key = ''A-1'', score = 1 / 2\<rparr>, \<lparr>key = ''A-2'', score = 1\<rparr>]) Malformed
        \<lparr>key = ''A-0'', summary = ''login fails'', description = ''x''\<rparr>
        [\<lparr>key = ''A-1'', summary = ''login fails on mobile'', description = ''''\<rparr>,
         \<lparr>key = ''A-2'', summary = ''crash'', description = ''y''\<rparr>] ! 0
      = \<lparr>key = ''A-1'', score = 4 / 10\<rparr>"
  using semantic_failure_scores_zero [of "Not_ok 503" config "Not_ok 503" Rejected
        "\<lparr>key = ''A-0'', summary = ''login fails'', description = ''x''\<rparr>"
        "[\<lparr>key = ''A-1'', summary = ''login fails on mobile'', description = ''''\<rparr>,
         \<lparr>key = ''A-2'', summary = ''crash'', description = ''y''\<rparr>]" 0]
    semantic_failure_scores_zero [of Malformed config
        "Body [\<lparr>key = ''A-1'', score = 1 / 2\<rparr>, \<lparr>key = ''A-2'', score = 1\<rparr>]" Malformed
        "\<lparr>key = ''A-0'', summary = ''login fails'', description = ''x''\<rparr>"
        "[\<lparr>key = ''A-1'', summary = ''login fails on mobile'', description = ''''\<rparr>,
         \<lparr>key = ''A-2'', summary = ''crash'', description = ''y''\<rparr>]" 0]
  by (simp add: failed_def config_def fetchSemanticSimilarity_def or_zero_def)

lemma map_of_increment:
  "map_of (increment m k) =
     (map_of m)(k \<mapsto> (case map_of m k of None \<Rightarrow> 0 | Some n \<Rightarrow> n) + 1)"
  by (rule ext) (simp add: increment_def update_conv)

lemma map_of_fold_increment:
  "map_of (fold (\<lambda>t tf. increment tf t) tokens m) t =
     (if t \<in> set tokens
      then Some ((case map_of m t of None \<Rightarrow> 0 | Some n \<Rightarrow> n) + count_list tokens t)
      else map_of m t)"
  by (induction tokens arbitrary: m) (auto simp: map_of_increment split: option.splits)

lemma fst_fold_increment:
  "fst ` set (fold (\<lambda>t tf. increment tf t) tokens m) = fst ` set m \<union> set tokens"
proof -
  have "dom (map_of (fold (\<lambda>t tf. increment tf t) tokens m)) = dom (map_of m) \<union> set tokens"
    by (auto simp: dom_def map_of_fold_increment split: if_splits)
  then show ?thesis by (simp add: dom_map_of_conv_image_fst)
qed

lemma map_of_map_value:
  "map_of (map (\<lambda>(t, n). (t, g t n)) tf) t = map_option (g t) (map_of tf t)"
  by (induction tf) auto

lemma df_or_1_max: "df_or_1 df t = max (document_frequency df t) 1"
  by (simp add: df_or_1_def document_frequency_def split: option.split)

lemma computeTfIdf_present:
  "t \<in> set tokens \<Longrightarrow>
   map_of (computeTfIdf tokens df totalDocs) t = Some (tf_idf_weight tokens df totalDocs t)"
  by (simp add: computeTfIdf_def Let_def map_of_map_value map_of_fold_increment
      tf_idf_weight_def df_or_1_max)

lemma computeTfIdf_absent:
  "t \<notin> set tokens \<Longrightarrow> map_of (computeTfIdf tokens df totalDocs) t = None"
  by (simp add: computeTfIdf_def Let_def map_of_map_value map_of_fold_increment)

lemma computeTfIdf_keys: "fst ` set (computeTfIdf tokens df totalDocs) = set tokens"
proof -
  have "map fst (map (\<lambda>(t, n). (t, g t n)) tf) = map fst tf" for g :: "string \<Rightarrow> nat \<Rightarrow> real" and tf
    by (induction tf) auto
  then have "fst ` set (computeTfIdf tokens df totalDocs)
        = fst ` set (fold (\<lambda>t tf. increment tf t) tokens [])"
    unfolding computeTfIdf_def Let_def by (metis set_map)
  then show ?thesis by (simp add: fst_fold_increment)
qed

text \<open>
  C8. For a non-empty token list and a corpus of at least one document, \<^verbatim>\<open>computeTfIdf\<close>
  gives each token of the list the weight
  \<open>(occurrences / length) * ln (totalDocs / max df 1)\<close> and no other key a weight; a token
  absent from the index is given \<open>df = 1\<close>, and both divisors, the length of the list and
  \<^verbatim>\<open>df[t] || 1\<close>, are positive.
\<close>

theorem computeTfIdf_weight:
  assumes "tokens \<noteq> []" and "0 < totalDocs"
  shows "(t \<in> set tokens \<longrightarrow>
            map_of (computeTfIdf tokens df totalDocs) t
              = Some ((real (count_list tokens t) / real (length tokens))
                      * ln (real totalDocs / real (max (document_frequency df t) 1))))
       \<and> (t \<notin> set tokens \<longrightarrow> map_of (computeTfIdf tokens df totalDocs) t = None)
       \<and> (map_of df t = None \<longrightarrow> df_or_1 df t = 1)
       \<and> df_or_1 df t = max (document_frequency df t) 1
       \<and> 0 < df_or_1 df t \<and> 0 < length tokens"
  using assms
  by (simp add: computeTfIdf_present computeTfIdf_absent tf_idf_weight_def df_or_1_max
      document_frequency_def df_or_1_def)

theorem computeTfIdf_weight_witness:
  "map_of (computeTfIdf [''login'', ''fails'', ''login''] [(''login'', 2), (''crash'', 1)] 4) ''login''
     = Some (2 / 3 * ln 2)
   \<and> map_of (computeTfIdf [''login'', ''fails'', ''login''] [(''login'', 2), (''crash'', 1)] 4) ''fails''
     = Some (1 / 3 * ln 4)
   \<and> map_of (computeTfIdf [''login'', ''fails'', ''login''] [(''login'', 2), (''crash'', 1)] 4) ''crash''
     = None"
  using computeTfIdf_weight [of "[''login'', ''fails'', ''login'']" 4 "''login''" "[(''login'', 2), (''crash'', 1)]"]
    computeTfIdf_weight [of "[''login'', ''fails'', ''login'']" 4 "''fails''" "[(''login'', 2), (''crash'', 1)]"]
    computeTfIdf_weight [of "[''login'', ''fails'', ''login'']" 4 "''crash''" "[(''login'', 2), (''crash'', 1)]"]
  by (simp add: document_frequency_def)

lemma fold_cosine_sums:
  "fold (\<lambda>term (dot, mag1, mag2).
           let a = A term; b = B term in (dot + a * b, mag1 + a * a, mag2 + b * b))
        terms (d, m1, m2)
   = (d + sum_list (map (\<lambda>t. A t * B t) terms),
      m1 + sum_list (map (\<lambda>t. A t * A t) terms),
      m2 + sum_list (map (\<lambda>t. B t * B t) terms))"
  for A B :: "string \<Rightarrow> real"
  by (induction terms arbitrary: d m1 m2) (simp_all add: Let_def algebra_simps)

lemma or_zero_absent: "t \<notin> fst ` set a \<Longrightarrow> or_zero (map_of a t) = 0"
proof -
  assume "t \<notin> fst ` set a"
  then have "map_of a t = None" by (simp add: map_of_eq_None_iff)
  then show ?thesis by (simp add: or_zero_simps)
qed

lemma squares_over_union:
  "(\<Sum>t \<in> fst ` set a \<union> S. or_zero (map_of a t) * or_zero (map_of a t))
     = (\<Sum>t \<in> fst ` set a. (or_zero (map_of a t))\<^sup>2)" if "finite S"
proof -
  have "(\<Sum>t \<in> fst ` set a. or_zero (map_of a t) * or_zero (map_of a t))
      = (\<Sum>t \<in> fst ` set a \<union> S. or_zero (map_of a t) * or_zero (map_of a t))"
    using that by (intro sum.mono_neutral_left) (auto simp: or_zero_absent)
  then show ?thesis by (simp add: power2_eq_square)
qed

lemma cosine_sums_values:
  "cosine_sums a b = (dot_product a b, (magnitude a)\<^sup>2, (magnitude b)\<^sup>2)"
proof -
  let ?K = "fst ` set a \<union> fst ` set b"
  let ?terms = "new_Set (map fst a @ map fst b)"
  have sums: "sum_list (map f ?terms) = sum f ?K" for f :: "string \<Rightarrow> real"
    using sum_list_distinct_conv_sum_set [OF distinct_new_Set, of f "map fst a @ map fst b"]
    by (simp add: set_new_Set)
  have m1: "(\<Sum>t \<in> ?K. or_zero (map_of a t) * or_zero (map_of a t)) = (magnitude a)\<^sup>2"
    using squares_over_union [of "fst ` set b" a]
    by (simp add: magnitude_def sum_nonneg)
  have m2: "(\<Sum>t \<in> ?K. or_zero (map_of b t) * or_zero (map_of b t)) = (magnitude b)\<^sup>2"
    using squares_over_union [of "fst ` set a" b]
    by (simp add: magnitude_def sum_nonneg Un_commute)
  show ?thesis
    unfolding cosine_sums_def Let_def fold_cosine_sums [unfolded Let_def] sums
    by (simp add: m1 m2 dot_product_def)
qed

lemma magnitude_nonneg: "0 \<le> magnitude a"
  by (simp add: magnitude_def sum_nonneg)

lemma cosine_divisor_value:
  "cosine_divisor a b =
     (if magnitude a * magnitude b = 0 then 1 else magnitude a * magnitude b)"
  by (simp add: cosine_divisor_def cosine_sums_values magnitude_nonneg)


lemma cosineSimilarity_quotient:
  "cosineSimilarity a b = dot_product a b / cosine_divisor a b"
  by (simp add: cosineSimilarity_def cosine_sums_values)

lemma cosineSimilarity_sums:
  "cosineSimilarity a b =
     dot_product a b /
       (if magnitude a * magnitude b = 0 then 1 else magnitude a * magnitude b)"
  by (simp only: cosineSimilarity_quotient cosine_divisor_value)

lemma magnitude_zero: "magnitude a = 0 \<Longrightarrow> or_zero (map_of a t) = 0"
proof (cases "t \<in> fst ` set a")
  case True
  assume "magnitude a = 0"
  then have "(\<Sum>t \<in> fst ` set a. (or_zero (map_of a t))\<^sup>2) = 0"
    by (simp add: magnitude_def sum_nonneg)
  then have "\<forall>t \<in> fst ` set a. (or_zero (map_of a t))\<^sup>2 = 0"
    by (subst (asm) sum_nonneg_eq_0_iff) auto
  with True show ?thesis by auto
next
  case False
  then show ?thesis by (simp add: or_zero_absent)
qed

lemma dot_product_zero: "magnitude a * magnitude b = 0 \<Longrightarrow> dot_product a b = 0"
  by (auto simp: dot_product_def magnitude_zero)

lemma cosineSimilarity_formula:
  "cosineSimilarity a b =
     (if magnitude a * magnitude b = 0 then 0
      else dot_product a b / (magnitude a * magnitude b))"
  by (simp add: cosineSimilarity_sums dot_product_zero)

lemma magnitude_Nil: "magnitude [] = 0"
  by (simp add: magnitude_def)



lemma replace_scan_empty: "replace_scan phrase replacement None [] = []"
  by (subst replace_scan.simps) (simp add: matches_at_def word_boundary_def char_at_def)

lemma applyPhraseMap_empty: "applyPhraseMap phraseMap [] = []"
  by (induction phraseMap) (auto simp: applyPhraseMap_def replace_scan_empty)

lemma tokenize_empty: "map_of nd [] = None \<Longrightarrow> tokenize pm nd [] = []"
  by (simp add: tokenize_def applyPhraseMap_empty toLowerCase_def normalizeToken_def)

lemma computeTfIdf_empty: "computeTfIdf [] df n = []"
  by (simp add: computeTfIdf_def)

lemma tfidf_length:
  "length (calculateTFIDFCosineSimilarity w pm nd cur others) = length others"
  by (simp add: calculateTFIDFCosineSimilarity_def Let_def del: upt_Suc)

lemma tfidf_nth:
  assumes "i < length others"
  shows "calculateTFIDFCosineSimilarity w pm nd cur others ! i =
     \<lparr>key = key (others ! i),
      score = summaryScore pm nd cur others i * SUMMARY_WEIGHT w
            + descScore pm nd cur others i * DESCRIPTION_WEIGHT w\<rparr>"
proof -
  have idx: "[1 ..< length (cur # others)] ! i = i + 1" "i < length [1 ..< length (cur # others)]"
    using assms by (simp_all del: upt_Suc)
  show ?thesis
    unfolding calculateTFIDFCosineSimilarity_def Let_def summaryScore_def descScore_def
    using assms by (simp only: nth_map [OF idx(2)] idx(1)) simp
qed

lemma descScore_empty:
  assumes "i < length others" "description (others ! i) = []" "map_of nd [] = None"
  shows "descScore pm nd cur others i = 0"
proof -
  have "tokenize pm nd (description (others ! i)) = []"
    using assms by (simp add: tokenize_empty)
  then show ?thesis
    using assms(1)
    by (simp add: descScore_def Let_def computeTfIdf_empty cosineSimilarity_formula magnitude_Nil)
qed

text \<open>
  C7. For a candidate whose description is empty the description cosine is \<open>0\<close> and the
  lexical score is exactly \<open>summaryScore * SUMMARY_WEIGHT\<close>, whatever the description of
  the current issue is; the weights are not renormalised. The normalization dictionary is
  taken to have no entry for the empty string.
\<close>

theorem empty_description_contributes_zero:
  assumes "i < length others" and "description (others ! i) = []"
    and "map_of normalizationDictionary [] = None"
  shows "descScore phraseMap normalizationDictionary cur others i = 0
       \<and> calculateTFIDFCosineSimilarity w phraseMap normalizationDictionary cur others ! i
           = \<lparr>key = key (others ! i),
              score = summaryScore phraseMap normalizationDictionary cur others i
                      * SUMMARY_WEIGHT w\<rparr>"
  using assms by (simp add: tfidf_nth descScore_empty)

theorem empty_description_contributes_zero_witness:
  "description \<lparr>key = ''A-0'', summary = ''Login fails'', description = ''crash at start''\<rparr> \<noteq> []
   \<and> descScore [(''log in'', ''login'')] [(''fails'', ''fail'')]
        \<lparr>key = ''A-0'', summary = ''Login fails'', description = ''crash at start''\<rparr>
        [\<lparr>key = ''A-1'', summary = ''Log in fails on mobile'', description = []\<rparr>,
         \<lparr>key = ''A-2'', summary = ''Crash'', description = ''crash at start''\<rparr>] 0 = 0
   \<and> calculateTFIDFCosineSimilarity config [(''log in'', ''login'')] [(''fails'', ''fail'')]
        \<lparr>key = ''A-0'', summary = ''Login fails'', description = ''crash at start''\<rparr>
        [\<lparr>key = ''A-1'', summary = ''Log in fails on mobile'', description = []\<rparr>,
         \<lparr>key = ''A-2'', summary = ''Crash'', description = ''crash at start''\<rparr>] ! 0
       = \<lparr>key = ''A-1'',
          score = summaryScore [(''log in'', ''login'')] [(''fails'', ''fail'')]
            \<lparr>key = ''A-0'', summary = ''Login fails'', description = ''crash at start''\<rparr>
            [\<lparr>key = ''A-1'', summary = ''Log in fails on mobile'', description = []\<rparr>,
             \<lparr>key = ''A-2'', summary = ''Crash'', description = ''crash at start''\<rparr>] 0
            * (8 / 10)\<rparr>"
  using empty_description_contributes_zero [of 0
        "[\<lparr>key = ''A-1'', summary = ''Log in fails on mobile'', description = []\<rparr>,
         \<lparr>key = ''A-2'', summary = ''Crash'', description = ''crash at start''\<rparr>]"
        "[(''fails'', ''fail'')]" "[(''log in'', ''login'')]"
        "\<lparr>key = ''A-0'', summary = ''Login fails'', description = ''crash at start''\<rparr>" config]
  by (simp add: config_def)

lemma count_list_distinct: "distinct xs \<Longrightarrow> x \<in> set xs \<Longrightarrow> count_list xs x = 1"
  by (induction xs) auto

lemma map_of_count_document:
  "map_of (fold (\<lambda>token df. increment df token) (new_Set tokens) m) t =
     (if t \<in> set tokens then Some ((case map_of m t of None \<Rightarrow> 0 | Some n \<Rightarrow> n) + 1)
      else map_of m t)"
  by (simp add: map_of_fold_increment set_new_Set count_list_distinct distinct_new_Set)

lemma document_frequencies_bound:
  "(\<And>n. map_of m t = Some n \<Longrightarrow> n \<le> k) \<Longrightarrow>
   map_of (fold (\<lambda>tokens df. fold (\<lambda>token df. increment df token) (new_Set tokens) df)
             documents m) t = Some n \<Longrightarrow>
   n \<le> k + length documents"
proof (induction documents arbitrary: m k)
  case Nil
  then show ?case by simp
next
  case (Cons d ds)
  let ?m = "fold (\<lambda>token df. increment df token) (new_Set d) m"
  have step: "n' \<le> Suc k" if "map_of ?m t = Some n'" for n'
    using that Cons.prems(1)
    by (auto simp: map_of_count_document split: if_splits option.splits)
  have "n \<le> Suc k + length ds"
    using Cons.IH [of ?m "Suc k"] step Cons.prems(2) by simp
  then show ?case by simp
qed

lemma computeDocumentFrequencies_le:
  "map_of (computeDocumentFrequencies documents) t = Some n \<Longrightarrow> n \<le> length documents"
  using document_frequencies_bound [of "[]" t 0 documents n]
  by (simp add: computeDocumentFrequencies_def)

lemma df_or_1_pos: "0 < df_or_1 df t"
  by (simp add: df_or_1_def split: option.split)

lemma df_or_1_le:
  "documents \<noteq> [] \<Longrightarrow> df_or_1 (computeDocumentFrequencies documents) t \<le> length documents"
  by (auto simp: df_or_1_def Suc_le_eq dest: computeDocumentFrequencies_le split: option.split)

lemma computeTfIdf_nonneg:
  assumes "(t, x) \<in> set (computeTfIdf tokens df totalDocs)"
    and "\<And>t. df_or_1 df t \<le> totalDocs"
  shows "0 \<le> x"
proof -
  obtain n where x: "x = (real n / real (length tokens))
                        * ln (real totalDocs / real (df_or_1 df t))"
    using assms(1) by (auto simp: computeTfIdf_def Let_def)
  have "1 \<le> real totalDocs / real (df_or_1 df t)"
    using assms(2) [of t] df_or_1_pos [of df t] by (simp add: le_divide_eq)
  then have "0 \<le> ln (real totalDocs / real (df_or_1 df t))" by simp
  then show ?thesis by (simp add: x)
qed

lemma or_zero_nonneg:
  "(\<And>t x. (t, x) \<in> set v \<Longrightarrow> 0 \<le> x) \<Longrightarrow> 0 \<le> or_zero (map_of v t)"
  by (cases "map_of v t") (auto simp: or_zero_simps dest: map_of_SomeD)

lemma cosineSimilarity_nonneg:
  assumes "\<And>t x. (t, x) \<in> set a \<Longrightarrow> 0 \<le> x" and "\<And>t x. (t, x) \<in> set b \<Longrightarrow> 0 \<le> x"
  shows "0 \<le> cosineSimilarity a b"
proof -
  have "0 \<le> dot_product a b"
    unfolding dot_product_def
    by (intro sum_nonneg mult_nonneg_nonneg or_zero_nonneg assms)
  moreover have "0 \<le> magnitude a * magnitude b"
    by (simp add: magnitude_def sum_nonneg)
  ultimately show ?thesis
    by (simp add: cosineSimilarity_formula)
qed

lemma corpus_cosine_nonneg:
  assumes "d1 \<in> set documents" "d2 \<in> set documents"
  shows "0 \<le> cosineSimilarity
           (computeTfIdf d1 (computeDocumentFrequencies documents) (length documents))
           (computeTfIdf d2 (computeDocumentFrequencies documents) (length documents))"
proof -
  have "documents \<noteq> []" using assms by auto
  then have "df_or_1 (computeDocumentFrequencies documents) t \<le> length documents" for t
    by (rule df_or_1_le)
  then show ?thesis
    by (intro cosineSimilarity_nonneg) (erule computeTfIdf_nonneg, simp)+
qed

lemma summaryScore_nonneg: "i < length others \<Longrightarrow> 0 \<le> summaryScore pm nd cur others i"
  using corpus_cosine_nonneg
    [of "tokenize pm nd (summary cur)"
        "map (\<lambda>doc. tokenize pm nd (summary doc)) (cur # others)"
        "tokenize pm nd (summary (others ! i))"]
  by (simp add: summaryScore_def Let_def)

lemma descScore_nonneg: "i < length others \<Longrightarrow> 0 \<le> descScore pm nd cur others i"
  using corpus_cosine_nonneg
    [of "tokenize pm nd (description cur)"
        "map (\<lambda>doc. tokenize pm nd (description doc)) (cur # others)"
        "tokenize pm nd (description (others ! i))"]
  by (simp add: descScore_def Let_def)

lemma tfidf_scores_nonneg:
  assumes "nonneg_weights w" "e \<in> set (calculateTFIDFCosineSimilarity w pm nd cur others)"
  shows "0 \<le> score e"
proof -
  obtain i where i: "i < length others"
      and e: "e = calculateTFIDFCosineSimilarity w pm nd cur others ! i"
    using assms(2) by (auto simp: in_set_conv_nth tfidf_length)
  have "0 \<le> summaryScore pm nd cur others i * SUMMARY_WEIGHT w"
       "0 \<le> descScore pm nd cur others i * DESCRIPTION_WEIGHT w"
    using assms(1) i by (simp_all add: nonneg_weights_def summaryScore_nonneg descScore_nonneg)
  then show ?thesis by (simp add: e tfidf_nth i)
qed

lemma tfidfScore_of_nonneg:
  "(\<And>e. e \<in> set xs \<Longrightarrow> 0 \<le> score e) \<Longrightarrow> 0 \<le> tfidfScore_of xs k"
proof (cases "List.find (\<lambda>e. key e = k) xs")
  case None
  then show ?thesis by (simp add: tfidfScore_of_def or_zero_simps)
next
  case (Some e)
  then have "e \<in> set xs" by (auto simp: find_Some_iff)
  moreover assume "\<And>e. e \<in> set xs \<Longrightarrow> 0 \<le> score e"
  ultimately show ?thesis using Some by (simp add: tfidfScore_of_def or_zero_simps)
qed

lemma map_of_fold_update:
  "map_of (fold (\<lambda>e m. AList.update (key e) (score e) m) result m0) k = Some v \<Longrightarrow>
   (\<exists>e \<in> set result. score e = v) \<or> map_of m0 k = Some v"
  by (induction result arbitrary: m0) (fastforce simp: update_conv split: if_splits)+

lemma semantic_field_nonneg:
  assumes "unit_scores res"
  shows "0 \<le> or_zero (map_of (fetchSemanticSimilarity res) k)"
proof (cases "map_of (fetchSemanticSimilarity res) k")
  case None
  then show ?thesis by (simp add: or_zero_simps)
next
  case (Some v)
  then obtain result where res: "res = Body result"
    by (cases res) (simp_all add: fetchSemanticSimilarity_def)
  with Some have "\<exists>e \<in> set result. score e = v"
    using map_of_fold_update [of result "[]" k v] by (simp add: fetchSemanticSimilarity_def)
  with assms res have "0 \<le> v" by (auto simp: unit_scores_def list_all_iff)
  with Some show ?thesis by (simp add: or_zero_simps)
qed

lemma semantic_scores_nonneg:
  assumes "nonneg_weights w" "unit_scores r1" "unit_scores r2" "i < length others"
  shows "0 \<le> score (calculateSemanticSimilarity w r1 r2 cur others ! i)"
proof -
  have "0 \<le> or_zero (map_of (fetchSemanticSimilarity r1) (key (others ! i))) * SUMMARY_WEIGHT w"
       "0 \<le> or_zero (map_of (fetchSemanticSimilarity r2) (key (others ! i))) * DESCRIPTION_WEIGHT w"
    using assms by (simp_all add: nonneg_weights_def semantic_field_nonneg)
  then show ?thesis using assms(4) by (simp add: semantic_nth)
qed

lemma merged_nonneg:
  assumes "nonneg_weights w" "unit_scores r1" "unit_scores r2" "i < length others"
  shows "0 \<le> score (semantic_tfidf_weighted_Scored w pm nd r1 r2 cur others ! i)"
proof -
  let ?sem = "calculateSemanticSimilarity w r1 r2 cur others"
  let ?tf = "calculateTFIDFCosineSimilarity w pm nd cur others"
  have s: "0 \<le> score (?sem ! i)" using assms by (rule semantic_scores_nonneg)
  have "0 \<le> tfidfScore_of ?tf (key (?sem ! i))"
    using assms(1) by (intro tfidfScore_of_nonneg) (rule tfidf_scores_nonneg)
  then have "0 \<le> score (?sem ! i) * SEMANTIC_WEIGHT w
                 + tfidfScore_of ?tf (key (?sem ! i)) * TFIDF_WEIGHT w"
    using s assms(1) by (simp add: nonneg_weights_def)
  with s show ?thesis
    using assms(4)
    by (simp add: semantic_tfidf_weighted_Scored_def Let_def merge_nth semantic_length)
qed

lemma boost_of_nonneg: "nonneg_weights w \<Longrightarrow> 0 \<le> boost_of w cm m"
  by (simp add: boost_of_closed nonneg_weights_def)

lemma candidate_boost_nonneg: "nonneg_weights w \<Longrightarrow> 0 \<le> candidate_boost w cm om k"
  by (simp add: candidate_boost_def boost_of_nonneg split: option.split)

lemma boosted_nth:
  assumes "i < length others"
  shows "boosted_Scored w pm nd r1 r2 cur others cm om ! i =
     \<lparr>key = key (others ! i),
      score = score (semantic_tfidf_weighted_Scored w pm nd r1 r2 cur others ! i)
              + candidate_boost w cm om (key (others ! i))\<rparr>"
proof -
  have "key (semantic_tfidf_weighted_Scored w pm nd r1 r2 cur others ! i) = key (others ! i)"
    using merged_keys [of w pm nd r1 r2 cur others] assms
    by (metis length_map nth_map)
  then show ?thesis
    using assms by (simp add: boosted_Scored_def boost_nth_candidate merged_length)
qed

lemma similarityScored_nth:
  assumes "i < length others"
  shows "similar_issue.score (similarityScored w pm nd r1 r2 cur others cm om ! i) =
     min (Math_round
            ((score (semantic_tfidf_weighted_Scored w pm nd r1 r2 cur others ! i)
              + candidate_boost w cm om (key (others ! i))) * 100) / 100) 1"
  using assms by (simp add: similarityScored_def Let_def boosted_length boosted_nth)

lemma round_then_cap: "min (Math_round (x * 100) / 100) 1 = Math_round (min x 1 * 100) / 100"
proof (cases "x \<le> 1")
  case True
  then have "\<lfloor>x * 100 + 1 / 2\<rfloor> \<le> 100" by (simp add: floor_le_iff)
  then have "Math_round (x * 100) \<le> 100" unfolding Math_round_def by linarith
  with True show ?thesis by (simp add: min_def)
next
  case False
  then have "100 \<le> \<lfloor>x * 100 + 1 / 2\<rfloor>" by (simp add: le_floor_iff)
  then have "100 \<le> Math_round (x * 100)" unfolding Math_round_def by linarith
  moreover have "Math_round 100 = 100" by (simp add: Math_round_def)
  ultimately show ?thesis using False by (simp add: min_def)
qed

lemma cap_in_unit: "0 \<le> x \<Longrightarrow> 0 \<le> min (Math_round (x * 100) / 100) 1 \<and> min (Math_round (x * 100) / 100) 1 \<le> 1"
proof -
  assume "0 \<le> x"
  then have "0 \<le> \<lfloor>x * 100 + 1 / 2\<rfloor>" by (simp add: le_floor_iff)
  then have "0 \<le> Math_round (x * 100)" by (simp add: Math_round_def)
  then show ?thesis by simp
qed

lemma similar_subset:
  "set (similar (fetchIssues w pm nd r1 r2 cur others cm om))
     \<subseteq> set (similarityScored w pm nd r1 r2 cur others cm om)"
  using set_take_subset [of 10 "Array_sort (\<lambda>a b. similar_issue.score b - similar_issue.score a)
      (similarityScored w pm nd r1 r2 cur others cm om)"]
  by (simp add: fetchIssues_def Let_def set_Array_sort)

text \<open>
  C2. When no weight is negative and the scores of the semantic service lie in \<open>[0, 1]\<close>,
  the score the resolver emits for a candidate is \<open>min (mergedScore + boost) 1\<close> rounded to
  two decimals (rounding before the cap, as the source does, and after it give the same
  number), and every emitted score lies in \<open>[0, 1]\<close>: the merged score and the boost are not
  negative, so no lower cap is needed.
\<close>

theorem emitted_score_in_unit_interval:
  assumes "nonneg_weights w"
    and "unit_scores summaryResponse" and "unit_scores descriptionResponse"
  shows "(i < length others \<longrightarrow>
            similar_issue.score
              (similarityScored w pm nd summaryResponse descriptionResponse cur others cm om ! i)
            = min (Math_round
                ((score (semantic_tfidf_weighted_Scored w pm nd summaryResponse
                           descriptionResponse cur others ! i)
                  + candidate_boost w cm om (key (others ! i))) * 100) / 100) 1
          \<and> similar_issue.score
              (similarityScored w pm nd summaryResponse descriptionResponse cur others cm om ! i)
            = Math_round
                (min (score (semantic_tfidf_weighted_Scored w pm nd summaryResponse
                               descriptionResponse cur others ! i)
                      + candidate_boost w cm om (key (others ! i))) 1 * 100) / 100)
       \<and> (r \<in> set (similar (fetchIssues w pm nd summaryResponse descriptionResponse
                               cur others cm om))
            \<longrightarrow> 0 \<le> similar_issue.score r \<and> similar_issue.score r \<le> 1)"
proof -
  let ?xs = "similarityScored w pm nd summaryResponse descriptionResponse cur others cm om"
  let ?base = "\<lambda>j. score (semantic_tfidf_weighted_Scored w pm nd summaryResponse
                        descriptionResponse cur others ! j)
                    + candidate_boost w cm om (key (others ! j))"
  have bounds: "0 \<le> similar_issue.score (?xs ! j) \<and> similar_issue.score (?xs ! j) \<le> 1"
    if "j < length others" for j
  proof -
    have "0 \<le> ?base j"
      using merged_nonneg [OF assms that, of pm nd cur] candidate_boost_nonneg [OF assms(1)]
      by (simp add: add_nonneg_nonneg)
    then show ?thesis
      using cap_in_unit [of "?base j"] by (simp only: similarityScored_nth [OF that])
  qed
  have out: "0 \<le> similar_issue.score r \<and> similar_issue.score r \<le> 1"
    if "r \<in> set (similar (fetchIssues w pm nd summaryResponse descriptionResponse
                             cur others cm om))"
  proof -
    from that similar_subset have "r \<in> set ?xs" by blast
    then obtain j where "j < length others" "r = ?xs ! j"
      by (auto simp: in_set_conv_nth similarityScored_length)
    then show ?thesis using bounds by simp
  qed
  have first: "similar_issue.score (?xs ! i) = min (Math_round (?base i * 100) / 100) 1"
    if "i < length others"
    using that by (rule similarityScored_nth)
  have second: "similar_issue.score (?xs ! i) = Math_round (min (?base i) 1 * 100) / 100"
    if "i < length others"
    using first [OF that] by (simp only: round_then_cap)
  from first second out show ?thesis by blast
qed

theorem emitted_score_in_unit_interval_witness:
  "nonneg_weights config
   \<and> unit_scores (Body [\<lparr>key = ''A-1'', score = 95 / 100\<rparr>, \<lparr>key = ''A-2'', score = 3 / 4\<rparr>])
   \<and> unit_scores Rejected
   \<and> map similar_issue.score (similar (fetchIssues config [] []
        (Body [\<lparr>key = ''A-1'', score = 95 / 100\<rparr>, \<lparr>key = ''A-2'', score = 3 / 4\<rparr>])
        (Body [\<lparr>key = ''A-1'', score = 95 / 100\<rparr>, \<lparr>key = ''A-2'', score = 3 / 4\<rparr>])
        \<lparr>key = ''A-0'', summary = ''login fails'', description = []\<rparr>
        [\<lparr>key = ''A-1'', summary = ''login fails on mobile'', description = []\<rparr>,
         \<lparr>key = ''A-2'', summary = ''crash'', description = []\<rparr>]
        \<lparr>issuetype = Some ''10001'', labels = [''ui'', ''login''],
         components = [\<lparr>name = ''web''\<rparr>]\<rparr>
        [\<lparr>issuetype = Some ''10001'', labels = [''login'', ''ui''],
          components = [\<lparr>name = ''web''\<rparr>], issue_metadata.key = ''A-1''\<rparr>]))
     = [1, 3 / 4]"
  using emitted_score_in_unit_interval [of config
        "Body [\<lparr>key = ''A-1'', score = 95 / 100\<rparr>, \<lparr>key = ''A-2'', score = 3 / 4\<rparr>]"
        "Body [\<lparr>key = ''A-1'', score = 95 / 100\<rparr>, \<lparr>key = ''A-2'', score = 3 / 4\<rparr>]"
        0
        "[\<lparr>key = ''A-1'', summary = ''login fails on mobile'', description = []\<rparr>,
         \<lparr>key = ''A-2'', summary = ''crash'', description = []\<rparr>]"]
  by (simp add: nonneg_weights_def unit_scores_def fetchIssues_def similarityScored_def
      boosted_Scored_def semantic_tfidf_weighted_Scored_def applyBoostingLogic_def
      boost_of_def new_Set_def Set_add_def mergeSimilarityScores_def
      calculateSemanticSimilarity_def fetchSemanticSimilarity_def or_zero_def config_def
      Array_sort_def Math_round_def Let_def)

section \<open>The model on examples\<close>

lemma tokenize_example:
  "tokenize [(''log in'', ''login'')] [(''fails'', ''fail'')] ''Cannot Log in: it fails on the blog in''
     = [''cannot'', ''login'', ''fail'', ''blog'']"
  by code_simp

lemma computeDocumentFrequencies_example:
  "computeDocumentFrequencies [[''login'', ''fails'', ''login''], [''login'', ''crash'']]
     = [(''login'', 2), (''fails'', 1), (''crash'', 1)]"
  by code_simp

lemma Array_sort_example:
  "Array_sort (\<lambda>a b. snd b - snd a) [(1::nat, 1 / 2 :: real), (2, 3 / 4), (3, 3 / 4), (4, 9 / 10)]
     = [(4, 9 / 10), (2, 3 / 4), (3, 3 / 4), (1, 1 / 2)]"
  by (simp add: Array_sort_def)

end
